theory Spec2Isabelle
  imports Complex_Main
begin

section \<open>Agent simulator: data model\<close>

text \<open>
  The embedded source is \<^verbatim>\<open>src/app/components/AgentSimulator.tsx\<close>: the credential
  resolver, the token authenticator, the gateway dispatcher, the scenario runner and the
  status badge. JSX rendering is not modelled, except for the badge's class and label.
\<close>

subsection \<open>Configuration\<close>

text \<open>
  Modelled from the spec: the type \<^verbatim>\<open>AppConfig\<close> is imported from
  \<^verbatim>\<open>./ConfigurationModal\<close>, which is not among the sources. The record has the fields
  the simulator reads: organization name, client identifier, target URL, and two agent-role
  records each with an identifier and a secret; all of them strings.
\<close>

record AgentConfig =
  agentId :: string
  agentSecret :: string

record AppConfig =
  orgName :: string
  clientId :: string
  targetUrl :: string
  coordinatorAgent :: AgentConfig
  expertAgent :: AgentConfig

subsection \<open>JavaScript values\<close>

text \<open>
  What \<^verbatim>\<open>response.json()\<close> can yield. A number carries the value of the parsed
  double; an object carries its members in the order of the JSON text.
\<close>

datatype json =
    JNull
  | JBool bool
  | JNum real
  | JStr string
  | JArr "json list"
  | JObj "(string \<times> json) list"

text \<open>A value that may be \<^verbatim>\<open>undefined\<close>: \<open>None\<close> is \<^verbatim>\<open>undefined\<close>.\<close>

type_synonym jsvalue = "json option"

text \<open>
  Everything thrown in this file is an \<^verbatim>\<open>Error\<close> instance carrying a message; the
  second constructor keeps the other branch of \<^verbatim>\<open>error instanceof Error\<close>.
\<close>

datatype js_error = ErrorObj string | NonError

text \<open>JavaScript truthiness, as tested by \<^verbatim>\<open>if (token)\<close> and \<^verbatim>\<open>||\<close>.\<close>

fun truthyJson :: "json \<Rightarrow> bool" where
  "truthyJson JNull = False"
| "truthyJson (JBool b) = b"
| "truthyJson (JNum n) = (n \<noteq> 0)"
| "truthyJson (JStr s) = (s \<noteq> [])"
| "truthyJson (JArr xs) = True"
| "truthyJson (JObj kvs) = True"

fun truthy :: "jsvalue \<Rightarrow> bool" where
  "truthy None = False"
| "truthy (Some j) = truthyJson j"

subsection \<open>Network and engine\<close>

record request =
  url :: string
  httpMethod :: string
  headers :: "string \<rightharpoonup> string"
  body :: json

text \<open>
  A response as the code reads it: \<^verbatim>\<open>response.ok\<close>, \<^verbatim>\<open>response.status\<close> and the
  outcome of \<^verbatim>\<open>response.json()\<close>, which either rejects with a \<^verbatim>\<open>SyntaxError\<close>
  (its message is kept) or yields the parsed value.
\<close>

datatype parsed_body = Malformed string | Parsed json

record http_response =
  ok :: bool
  status :: int
  jsonBody :: parsed_body

text \<open>
  \<^verbatim>\<open>fetch\<close> either rejects (endpoint unreachable; the \<^verbatim>\<open>TypeError\<close>'s message is
  kept) or resolves to a response.
\<close>

datatype fetch_result = Rejected string | Responded http_response

text \<open>
  The surroundings of one invocation: what \<^verbatim>\<open>fetch\<close> answers to each request, what
  \<^verbatim>\<open>new Date()\<close> returns, and two texts the JavaScript engine chooses: the string
  conversion of a JSON value that is not a string, and the message of the
  \<^verbatim>\<open>TypeError\<close> raised on reading a property of \<^verbatim>\<open>null\<close>.
\<close>

record environment =
  fetch :: "request \<Rightarrow> fetch_result"
  now :: nat
  stringOfNonString :: "json \<Rightarrow> string"
  nullReadMessage :: "string \<Rightarrow> string"

text \<open>String conversion, as in \<^verbatim>\<open>new Error(v)\<close> and in a template literal.\<close>

definition ToString :: "environment \<Rightarrow> json \<Rightarrow> string" where
  "ToString env j = (case j of JStr s \<Rightarrow> s | _ \<Rightarrow> stringOfNonString env j)"

text \<open>
  Reading the property \<^verbatim>\<open>error\<close> or \<^verbatim>\<open>access_token\<close> of a parsed value: it throws
  on \<^verbatim>\<open>null\<close>, finds a member of an object (the last one of that name, as
  \<^verbatim>\<open>JSON.parse\<close> keeps it), and is \<^verbatim>\<open>undefined\<close> on everything else.
\<close>

definition getProperty :: "environment \<Rightarrow> json \<Rightarrow> string \<Rightarrow> js_error + jsvalue" where
  "getProperty env j k =
     (case j of
        JNull \<Rightarrow> Inl (ErrorObj (nullReadMessage env k))
      | JObj kvs \<Rightarrow> Inr (map_of (rev kvs) k)
      | _ \<Rightarrow> Inr None)"

definition json_of :: "http_response \<Rightarrow> js_error + json" where
  "json_of r = (case jsonBody r of Malformed m \<Rightarrow> Inl (ErrorObj m) | Parsed j \<Rightarrow> Inr j)"

text \<open>What an invocation does to the outside, in order.\<close>

datatype effect =
    Fetch request
  | Alert string
  | OpenConfig
  | ConsoleError string js_error

definition requests :: "effect list \<Rightarrow> request list" where
  "requests es = concat (map (\<lambda>e. case e of Fetch r \<Rightarrow> [r] | _ \<Rightarrow> []) es)"

subsection \<open>Component state\<close>

datatype SimulationCase = CorrectAgent | WrongAgent | NoAuth

record SimulationResult =
  caseType :: SimulationCase
  agentType :: string
  authUsed :: string
  tokenReceived :: jsvalue
  response :: json
  statusCode :: int
  timestamp :: nat

text \<open>
  The component's state hooks, and the effects performed so far (\<open>trace\<close>), which are
  not React state but the record of what the component did to the outside.
\<close>

record SimulatorState =
  selectedCase :: SimulationCase
  selectedAgent :: string
  isLoading :: bool
  results :: "SimulationResult list"
  expandedResult :: "nat option"
  trace :: "effect list"

section \<open>Operations\<close>

definition isConfigValid :: "AppConfig \<Rightarrow> bool" where
  "isConfigValid config \<longleftrightarrow>
     orgName config \<noteq> [] \<and> clientId config \<noteq> [] \<and> targetUrl config \<noteq> [] \<and>
     agentId (coordinatorAgent config) \<noteq> [] \<and> agentSecret (coordinatorAgent config) \<noteq> [] \<and>
     agentId (expertAgent config) \<noteq> [] \<and> agentSecret (expertAgent config) \<noteq> []"

definition getAgentCredentials :: "AppConfig \<Rightarrow> string \<Rightarrow> AgentConfig" where
  "getAgentCredentials config agentType' =
     (if agentType' = ''Support-Coordinator''
      then \<lparr>agentId = agentId (coordinatorAgent config),
            agentSecret = agentSecret (coordinatorAgent config)\<rparr>
      else \<lparr>agentId = agentId (expertAgent config),
            agentSecret = agentSecret (expertAgent config)\<rparr>)"

definition getWrongAgentCredentials :: "AppConfig \<Rightarrow> AgentConfig \<times> string" where
  "getWrongAgentCredentials config =
     (\<lparr>agentId = agentId (coordinatorAgent config),
       agentSecret = agentSecret (coordinatorAgent config)\<rparr>,
      ''Technical-Specialist'')"

subsection \<open>Token authenticator\<close>

definition tokenRequest :: "AppConfig \<Rightarrow> string \<Rightarrow> string \<Rightarrow> request" where
  "tokenRequest config aid asecret =
     \<lparr>url = ''/api/auth/agent-token'',
      httpMethod = ''POST'',
      headers = [''Content-Type'' \<mapsto> ''application/json''],
      body = JObj [(''orgName'', JStr (orgName config)),
                   (''clientId'', JStr (clientId config)),
                   (''agentId'', JStr aid),
                   (''agentSecret'', JStr asecret)]\<rparr>"

text \<open>The value of \<^verbatim>\<open>error.error || 'Failed to authenticate'\<close>, converted by \<^verbatim>\<open>new Error\<close>.\<close>

definition failureReason :: "environment \<Rightarrow> jsvalue \<Rightarrow> string" where
  "failureReason env v =
     (case v of
        Some j \<Rightarrow> if truthyJson j then ToString env j else ''Failed to authenticate''
      | None \<Rightarrow> ''Failed to authenticate'')"

text \<open>The body of the \<^verbatim>\<open>try\<close> block of \<^verbatim>\<open>authenticateAgent\<close>.\<close>

definition authenticateAgentTry ::
    "environment \<Rightarrow> AppConfig \<Rightarrow> string \<Rightarrow> string \<Rightarrow> js_error + jsvalue" where
  "authenticateAgentTry env config aid asecret =
     (case fetch env (tokenRequest config aid asecret) of
        Rejected m \<Rightarrow> Inl (ErrorObj m)
      | Responded resp \<Rightarrow>
          if \<not> ok resp then
            (case json_of resp of
               Inl e \<Rightarrow> Inl e
             | Inr error \<Rightarrow>
                 (case getProperty env error ''error'' of
                    Inl e \<Rightarrow> Inl e
                  | Inr v \<Rightarrow> Inl (ErrorObj (failureReason env v))))
          else
            (case json_of resp of
               Inl e \<Rightarrow> Inl e
             | Inr data \<Rightarrow> getProperty env data ''access_token''))"

text \<open>The \<^verbatim>\<open>catch\<close> block logs the error and throws it again.\<close>

definition authenticateAgent ::
    "environment \<Rightarrow> AppConfig \<Rightarrow> string \<Rightarrow> string \<Rightarrow> effect list \<times> (js_error + jsvalue)" where
  "authenticateAgent env config aid asecret =
     (case authenticateAgentTry env config aid asecret of
        Inl e \<Rightarrow> ([Fetch (tokenRequest config aid asecret),
                   ConsoleError ''Authentication error:'' e], Inl e)
      | Inr token \<Rightarrow> ([Fetch (tokenRequest config aid asecret)], Inr token))"

subsection \<open>Gateway dispatcher\<close>

definition baseHeaders :: "AppConfig \<Rightarrow> string \<Rightarrow> (string \<rightharpoonup> string)" where
  "baseHeaders config atype =
     [''Content-Type'' \<mapsto> ''application/json'',
      ''x-agent-type'' \<mapsto> atype,
      ''x-target-url'' \<mapsto> targetUrl config]"

definition chatHeaders :: "environment \<Rightarrow> AppConfig \<Rightarrow> jsvalue \<Rightarrow> string \<Rightarrow> (string \<rightharpoonup> string)" where
  "chatHeaders env config token atype =
     (case token of
        Some j \<Rightarrow>
          if truthyJson j
          then (baseHeaders config atype)(''Authorization'' \<mapsto> ''Bearer '' @ ToString env j)
          else baseHeaders config atype
      | None \<Rightarrow> baseHeaders config atype)"

definition chatRequest :: "environment \<Rightarrow> AppConfig \<Rightarrow> jsvalue \<Rightarrow> string \<Rightarrow> request" where
  "chatRequest env config token atype =
     \<lparr>url = ''/api/chat'',
      httpMethod = ''POST'',
      headers = chatHeaders env config token atype,
      body = JObj [(''messages'',
               JArr [JObj [(''role'', JStr ''user''),
                           (''content'',
                            JStr (''Hello, I am '' @ atype @ ''. This is a test message.''))]])]\<rparr>"

definition sendChatRequest ::
    "environment \<Rightarrow> AppConfig \<Rightarrow> jsvalue \<Rightarrow> string \<Rightarrow> effect list \<times> (js_error + json \<times> int)" where
  "sendChatRequest env config token atype =
     ([Fetch (chatRequest env config token atype)],
      (case fetch env (chatRequest env config token atype) of
         Rejected m \<Rightarrow> Inl (ErrorObj m)
       | Responded resp \<Rightarrow>
           (case json_of resp of
              Inl e \<Rightarrow> Inl e
            | Inr data \<Rightarrow> Inr (data, status resp))))"

subsection \<open>Scenario runner\<close>

text \<open>
  The two awaited calls that the first two cases of the \<^verbatim>\<open>switch\<close> share:
  \<^verbatim>\<open>authenticateAgent\<close> with the given credentials, then \<^verbatim>\<open>sendChatRequest\<close>
  with the token obtained and the given agent type. An error thrown by the first call skips
  the second.
\<close>

definition authThenChat ::
    "environment \<Rightarrow> AppConfig \<Rightarrow> AgentConfig \<Rightarrow> string \<Rightarrow>
     effect list \<times> (js_error + jsvalue \<times> json \<times> int)" where
  "authThenChat env config credentials atype =
     (case authenticateAgent env config (agentId credentials) (agentSecret credentials) of
        (es, Inl e) \<Rightarrow> (es, Inl e)
      | (es, Inr token) \<Rightarrow>
          (case sendChatRequest env config token atype of
             (es', Inl e) \<Rightarrow> (es @ es', Inl e)
           | (es', Inr (data, code)) \<Rightarrow> (es @ es', Inr (token, data, code))))"

text \<open>
  The \<^verbatim>\<open>switch\<close> inside the \<^verbatim>\<open>try\<close> block of \<^verbatim>\<open>runSimulation\<close>: the effects
  performed, and either the error thrown or the result built. The \<^verbatim>\<open>default\<close> branch
  is unreachable for the three cases of the type.
\<close>

definition scenario ::
    "environment \<Rightarrow> AppConfig \<Rightarrow> SimulationCase \<Rightarrow> string \<Rightarrow>
     effect list \<times> (js_error + SimulationResult)" where
  "scenario env config c agent =
     (case c of
        CorrectAgent \<Rightarrow>
          (case authThenChat env config (getAgentCredentials config agent) agent of
             (es, Inl e) \<Rightarrow> (es, Inl e)
           | (es, Inr (token, data, code)) \<Rightarrow>
               (es, Inr \<lparr>caseType = CorrectAgent,
                         agentType = agent,
                         authUsed = agent @ '' credentials'',
                         tokenReceived = token,
                         response = data,
                         statusCode = code,
                         timestamp = now env\<rparr>))
      | WrongAgent \<Rightarrow>
          (case authThenChat env config (fst (getWrongAgentCredentials config))
                  (snd (getWrongAgentCredentials config)) of
             (es, Inl e) \<Rightarrow> (es, Inl e)
           | (es, Inr (token, data, code)) \<Rightarrow>
               (es, Inr \<lparr>caseType = WrongAgent,
                         agentType = ''Technical-Specialist'',
                         authUsed = ''Support-Coordinator credentials'',
                         tokenReceived = token,
                         response = data,
                         statusCode = code,
                         timestamp = now env\<rparr>))
      | NoAuth \<Rightarrow>
          (case sendChatRequest env config (Some JNull) agent of
             (es, Inl e) \<Rightarrow> (es, Inl e)
           | (es, Inr (data, code)) \<Rightarrow>
               (es, Inr \<lparr>caseType = NoAuth,
                         agentType = agent,
                         authUsed = ''No authentication'',
                         tokenReceived = Some JNull,
                         response = data,
                         statusCode = code,
                         timestamp = now env\<rparr>)))"

definition errorMessage :: "js_error \<Rightarrow> string" where
  "errorMessage e = (case e of ErrorObj m \<Rightarrow> m | NonError \<Rightarrow> ''Unknown error'')"

definition errorResult :: "environment \<Rightarrow> SimulationCase \<Rightarrow> string \<Rightarrow> js_error \<Rightarrow> SimulationResult" where
  "errorResult env c agent e =
     \<lparr>caseType = c,
      agentType = agent,
      authUsed = (if c = NoAuth then ''No authentication'' else agent @ '' credentials''),
      tokenReceived = Some JNull,
      response = JObj [(''error'', JStr (errorMessage e))],
      statusCode = 500,
      timestamp = now env\<rparr>"

text \<open>
  One invocation of \<^verbatim>\<open>runSimulation\<close>. \<^verbatim>\<open>setIsLoading(true)\<close> is overwritten by the
  \<^verbatim>\<open>finally\<close> block before the invocation ends.
\<close>

definition runSimulation :: "environment \<Rightarrow> AppConfig \<Rightarrow> SimulatorState \<Rightarrow> SimulatorState" where
  "runSimulation env config st =
     (if \<not> isConfigValid config
      then st\<lparr>trace := trace st @ [Alert ''Please configure all settings first'', OpenConfig]\<rparr>
      else
        (case scenario env config (selectedCase st) (selectedAgent st) of
           (es, Inr result) \<Rightarrow>
             st\<lparr>results := result # results st,
                expandedResult := Some 0,
                isLoading := False,
                trace := trace st @ es\<rparr>
         | (es, Inl e) \<Rightarrow>
             st\<lparr>results := errorResult env (selectedCase st) (selectedAgent st) e # results st,
                expandedResult := Some 0,
                isLoading := False,
                trace := trace st @ es\<rparr>))"



subsection \<open>Status badge\<close>

text \<open>The badge that \<^verbatim>\<open>getStatusBadge\<close> renders: its colour classes and its text.\<close>

record badge =
  className :: string
  shownCode :: int
  label :: string

definition getStatusBadge :: "int \<Rightarrow> badge" where
  "getStatusBadge code =
     (if code \<ge> 200 \<and> code < 300 then
        \<lparr>className = ''bg-green-100 text-green-800 dark:bg-green-900/30 dark:text-green-400'',
         shownCode = code, label = ''Success''\<rparr>
      else if code \<ge> 400 \<and> code < 500 then
        \<lparr>className = ''bg-yellow-100 text-yellow-800 dark:bg-yellow-900/30 dark:text-yellow-400'',
         shownCode = code, label = ''Client Error''\<rparr>
      else
        \<lparr>className = ''bg-red-100 text-red-800 dark:bg-red-900/30 dark:text-red-400'',
         shownCode = code, label = ''Error''\<rparr>)"

section \<open>Concrete inputs\<close>

text \<open>
  The example configuration of the specification, one with the target URL missing, and the
  component's initial state with each of the three scenarios selected.
\<close>

definition exampleConfig :: AppConfig where
  "exampleConfig =
     \<lparr>orgName = ''acme'', clientId = ''c1'', targetUrl = ''https://gw.example/chat'',
      coordinatorAgent = \<lparr>agentId = ''coord-1'', agentSecret = ''s1''\<rparr>,
      expertAgent = \<lparr>agentId = ''spec-1'', agentSecret = ''s2''\<rparr>\<rparr>"

definition incompleteConfig :: AppConfig where
  "incompleteConfig = exampleConfig\<lparr>targetUrl := []\<rparr>"

definition initialState :: SimulatorState where
  "initialState =
     \<lparr>selectedCase = CorrectAgent, selectedAgent = ''Support-Coordinator'', isLoading = False,
      results = [], expandedResult = None, trace = []\<rparr>"

definition impersonationState :: SimulatorState where
  "impersonationState = initialState\<lparr>selectedCase := WrongAgent\<rparr>"

definition noAuthState :: SimulatorState where
  "noAuthState = initialState\<lparr>selectedCase := NoAuth\<rparr>"


definition tokenEnv :: environment where
  "tokenEnv =
     \<lparr>fetch = (\<lambda>req.
        if url req = ''/api/auth/agent-token''
        then Responded \<lparr>ok = True, status = 200,
               jsonBody = Parsed (JObj [(''access_token'', JStr ''T'')])\<rparr>
        else Responded \<lparr>ok = False, status = 403,
               jsonBody = Parsed (JObj [(''message'', JStr ''Forbidden'')])\<rparr>),
      now = 7,
      stringOfNonString = (\<lambda>j. ''[object Object]''),
      nullReadMessage = (\<lambda>k. ''Cannot read properties of null'')\<rparr>"

definition rejectingEnv :: environment where
  "rejectingEnv =
     \<lparr>fetch = (\<lambda>req.
        Responded \<lparr>ok = False, status = 401,
          jsonBody = Parsed (JObj [(''error'', JStr ''invalid_client'')])\<rparr>),
      now = 3,
      stringOfNonString = (\<lambda>j. ''[object Object]''),
      nullReadMessage = (\<lambda>k. ''Cannot read properties of null'')\<rparr>"

definition malformedEnv :: environment where
  "malformedEnv =
     \<lparr>fetch = (\<lambda>req.
        Responded \<lparr>ok = False, status = 502,
          jsonBody = Malformed ''Unexpected end of JSON input''\<rparr>),
      now = 5,
      stringOfNonString = (\<lambda>j. ''[object Object]''),
      nullReadMessage = (\<lambda>k. ''Cannot read properties of null'')\<rparr>"



text \<open>
  The same surroundings with the status of every gateway response replaced, \<^verbatim>\<open>ok\<close>
  following the new status as it does in a \<^verbatim>\<open>Response\<close>; a replacement that turns
  every status into 200; and a state with the recorded status codes blanked. They serve to
  say that nothing but the recorded code depends on the gateway's status.
\<close>

definition withGatewayStatus :: "(int \<Rightarrow> int) \<Rightarrow> environment \<Rightarrow> environment" where
  "withGatewayStatus f env =
     env\<lparr>fetch := (\<lambda>req.
        if url req = ''/api/chat''
        then (case fetch env req of
                Rejected m \<Rightarrow> Rejected m
              | Responded r \<Rightarrow>
                  Responded (r\<lparr>status := f (status r),
                               ok := (200 \<le> f (status r) \<and> f (status r) < 300)\<rparr>))
        else fetch env req)\<rparr>"

definition toOk :: "int \<Rightarrow> int" where
  "toOk code = 200"

definition eraseStatus :: "SimulatorState \<Rightarrow> SimulatorState" where
  "eraseStatus st = st\<lparr>results := map (\<lambda>r. r\<lparr>statusCode := 0\<rparr>) (results st)\<rparr>"

section \<open>Auxiliary facts\<close>

subsection \<open>Effects and the runner\<close>

lemma requests_Nil [simp]: "requests [] = []"
  by (simp add: requests_def)

lemma requests_Cons [simp]:
  "requests (e # es) = (case e of Fetch r \<Rightarrow> r # requests es | _ \<Rightarrow> requests es)"
  by (cases e) (simp_all add: requests_def)

lemma requests_append [simp]: "requests (xs @ ys) = requests xs @ requests ys"
  by (simp add: requests_def)

lemma exampleConfig_valid: "isConfigValid exampleConfig"
  by (simp add: isConfigValid_def exampleConfig_def)

lemma runSimulation_valid:
  assumes "isConfigValid config"
  shows "runSimulation env config st =
    st\<lparr>results :=
         (case snd (scenario env config (selectedCase st) (selectedAgent st)) of
            Inr r \<Rightarrow> r
          | Inl e \<Rightarrow> errorResult env (selectedCase st) (selectedAgent st) e) # results st,
       expandedResult := Some 0,
       isLoading := False,
       trace := trace st @ fst (scenario env config (selectedCase st) (selectedAgent st))\<rparr>"
  using assms
  by (cases "scenario env config (selectedCase st) (selectedAgent st)")
     (auto simp: runSimulation_def split: sum.splits)

lemma runSimulation_invalid:
  assumes "\<not> isConfigValid config"
  shows "runSimulation env config st =
    st\<lparr>trace := trace st @ [Alert ''Please configure all settings first'', OpenConfig]\<rparr>"
  using assms by (simp add: runSimulation_def)




subsection \<open>Authenticator\<close>

lemma authenticateAgent_snd:
  "snd (authenticateAgent env config a s) = authenticateAgentTry env config a s"
  by (simp add: authenticateAgent_def split: sum.splits)

lemma authenticateAgent_requests:
  "requests (fst (authenticateAgent env config a s)) = [tokenRequest config a s]"
  by (simp add: authenticateAgent_def split: sum.splits)


lemma authenticateAgent_failure:
  assumes "fetch env (tokenRequest config a s) = Responded resp" and "\<not> ok resp"
  shows "snd (authenticateAgent env config a s) =
     (case jsonBody resp of
        Malformed m \<Rightarrow> Inl (ErrorObj m)
      | Parsed d \<Rightarrow>
          (case getProperty env d ''error'' of
             Inl e \<Rightarrow> Inl e
           | Inr v \<Rightarrow> Inl (ErrorObj (failureReason env v))))"
  using assms
  by (simp add: authenticateAgent_snd authenticateAgentTry_def json_of_def
        split: parsed_body.splits)

lemma failureReason_falsy: "\<not> truthy v \<Longrightarrow> failureReason env v = ''Failed to authenticate''"
  by (cases v) (simp_all add: failureReason_def)

lemma failureReason_string: "reason \<noteq> [] \<Longrightarrow> failureReason env (Some (JStr reason)) = reason"
  by (simp add: failureReason_def ToString_def)

lemma tokenEnv_authenticates:
  "snd (authenticateAgent tokenEnv exampleConfig ''coord-1'' ''s1'') = Inr (Some (JStr ''T''))"
  by (simp add: authenticateAgent_def authenticateAgentTry_def tokenEnv_def tokenRequest_def
        json_of_def getProperty_def)

subsection \<open>Dispatcher\<close>

lemma sendChatRequest_effects:
  "fst (sendChatRequest env config token a) = [Fetch (chatRequest env config token a)]"
  by (simp add: sendChatRequest_def)

lemma chatHeaders_no_token:
  "\<not> truthy token \<Longrightarrow> chatHeaders env config token a = baseHeaders config a"
  by (cases token) (simp_all add: chatHeaders_def)


lemma chatRequest_authorization:
  "headers (chatRequest env config token a) ''Authorization'' =
     (case token of
        None \<Rightarrow> None
      | Some j \<Rightarrow> if truthyJson j then Some (''Bearer '' @ ToString env j) else None)"
  by (simp add: chatRequest_def chatHeaders_def baseHeaders_def split: option.splits)

lemma chatRequest_agent_header:
  "headers (chatRequest env config token a) ''x-agent-type'' = Some a"
  by (simp add: chatRequest_def chatHeaders_def baseHeaders_def split: option.splits)

lemma chatRequest_url: "url (chatRequest env config token a) = ''/api/chat''"
  by (simp add: chatRequest_def)

subsection \<open>Scenarios\<close>

lemma getAgentCredentials_coordinator:
  "getAgentCredentials config ''Support-Coordinator'' = coordinatorAgent config"
  by (simp add: getAgentCredentials_def)

lemma authThenChat_requests:
  "requests (fst (authThenChat env config cr a)) =
     tokenRequest config (agentId cr) (agentSecret cr) #
       (case snd (authenticateAgent env config (agentId cr) (agentSecret cr)) of
          Inl e \<Rightarrow> []
        | Inr token \<Rightarrow> [chatRequest env config token a])"
proof (cases "authenticateAgent env config (agentId cr) (agentSecret cr)")
  case (Pair es out)
  then have es: "requests es = [tokenRequest config (agentId cr) (agentSecret cr)]"
    using authenticateAgent_requests [of env config "agentId cr" "agentSecret cr"] by simp
  show ?thesis
  proof (cases out)
    case (Inl e)
    with Pair es show ?thesis by (simp add: authThenChat_def)
  next
    case (Inr token)
    obtain es' out' where s: "sendChatRequest env config token a = (es', out')"
      by (cases "sendChatRequest env config token a")
    then have "es' = [Fetch (chatRequest env config token a)]"
      using sendChatRequest_effects [of env config token a] by simp
    with Pair Inr es s show ?thesis
      by (cases out') (auto simp: authThenChat_def)
  qed
qed

lemma authThenChat_fails:
  assumes "snd (authenticateAgent env config (agentId cr) (agentSecret cr)) = Inl e \<or>
           (\<exists>token. snd (authenticateAgent env config (agentId cr) (agentSecret cr)) = Inr token \<and>
                    snd (sendChatRequest env config token a) = Inl e)"
  shows "snd (authThenChat env config cr a) = Inl e"
  using assms
  by (auto simp: authThenChat_def split: prod.splits sum.splits)

lemma authThenChat_succeeds:
  assumes "snd (authenticateAgent env config (agentId cr) (agentSecret cr)) = Inr token"
      and "snd (sendChatRequest env config token a) = Inr (data, code)"
  shows "snd (authThenChat env config cr a) = Inr (token, data, code)"
  using assms
  by (auto simp: authThenChat_def split: prod.splits sum.splits)


lemma scenario_NoAuth_effects:
  "fst (scenario env config NoAuth a) = [Fetch (chatRequest env config (Some JNull) a)]"
  by (simp add: scenario_def sendChatRequest_def split: fetch_result.splits sum.splits)

lemma scenario_WrongAgent:
  "scenario env config WrongAgent a =
     (case authThenChat env config (coordinatorAgent config) ''Technical-Specialist'' of
        (es, Inl e) \<Rightarrow> (es, Inl e)
      | (es, Inr (token, data, code)) \<Rightarrow>
          (es, Inr \<lparr>caseType = WrongAgent,
                    agentType = ''Technical-Specialist'',
                    authUsed = ''Support-Coordinator credentials'',
                    tokenReceived = token,
                    response = data,
                    statusCode = code,
                    timestamp = now env\<rparr>))"
  by (simp add: scenario_def getWrongAgentCredentials_def authThenChat_def)

lemma scenario_WrongAgent_requests:
  "requests (fst (scenario env config WrongAgent a)) =
     requests (fst (authThenChat env config (coordinatorAgent config) ''Technical-Specialist''))"
  by (auto simp: scenario_WrongAgent split: prod.splits sum.splits)

lemma scenario_CorrectAgent_requests:
  "requests (fst (scenario env config CorrectAgent a)) =
     requests (fst (authThenChat env config (getAgentCredentials config a) a))"
  by (auto simp: scenario_def split: prod.splits sum.splits)

lemma scenario_authUsed:
  assumes "c \<noteq> NoAuth" and "c = WrongAgent \<longrightarrow> a = ''Support-Coordinator''"
  shows "authUsed (case snd (scenario env config c a) of
                     Inr r \<Rightarrow> r
                   | Inl e \<Rightarrow> errorResult env c a e) = a @ '' credentials''"
  using assms
  by (cases c) (auto simp: scenario_def errorResult_def split: prod.splits sum.splits)



subsection \<open>Unreachable endpoints\<close>







subsection \<open>Independence of the status code\<close>

lemma tokenRequest_url: "url (tokenRequest config a s) = ''/api/auth/agent-token''"
  by (simp add: tokenRequest_def)

lemma ToString_withGatewayStatus [simp]: "ToString (withGatewayStatus f env) j = ToString env j"
  by (cases j) (simp_all add: ToString_def withGatewayStatus_def)

lemma getProperty_withGatewayStatus [simp]:
  "getProperty (withGatewayStatus f env) j k = getProperty env j k"
  by (cases j) (simp_all add: getProperty_def withGatewayStatus_def)

lemma chatRequest_withGatewayStatus [simp]:
  "chatRequest (withGatewayStatus f env) config token a = chatRequest env config token a"
  by (simp add: chatRequest_def chatHeaders_def split: option.splits)

lemma now_withGatewayStatus [simp]: "now (withGatewayStatus f env) = now env"
  by (simp add: withGatewayStatus_def)

lemma fetch_token_withGatewayStatus:
  "fetch (withGatewayStatus f env) (tokenRequest config a s) = fetch env (tokenRequest config a s)"
  by (simp add: withGatewayStatus_def tokenRequest_url)

lemma fetch_chat_withGatewayStatus:
  "fetch (withGatewayStatus f env) (chatRequest env config token a) =
     (case fetch env (chatRequest env config token a) of
        Rejected m \<Rightarrow> Rejected m
      | Responded r \<Rightarrow>
          Responded (r\<lparr>status := f (status r),
                       ok := (200 \<le> f (status r) \<and> f (status r) < 300)\<rparr>))"
  by (simp add: withGatewayStatus_def chatRequest_url)

lemma authenticateAgent_withGatewayStatus [simp]:
  "authenticateAgent (withGatewayStatus f env) config a s = authenticateAgent env config a s"
proof -
  have "authenticateAgentTry (withGatewayStatus f env) config a s =
      authenticateAgentTry env config a s"
    by (simp add: authenticateAgentTry_def fetch_token_withGatewayStatus failureReason_def
          split: fetch_result.splits option.splits sum.splits)
  then show ?thesis
    by (simp add: authenticateAgent_def)
qed

lemma sendChatRequest_withGatewayStatus:
  "sendChatRequest (withGatewayStatus f env) config token a =
     (case sendChatRequest env config token a of
        (es, Inl e) \<Rightarrow> (es, Inl e)
      | (es, Inr (d, c)) \<Rightarrow> (es, Inr (d, f c)))"
  by (simp add: sendChatRequest_def fetch_chat_withGatewayStatus json_of_def
        split: fetch_result.splits parsed_body.splits)

lemma authThenChat_withGatewayStatus:
  "authThenChat (withGatewayStatus f env) config cr a =
     (case authThenChat env config cr a of
        (es, Inl e) \<Rightarrow> (es, Inl e)
      | (es, Inr (t, d, c)) \<Rightarrow> (es, Inr (t, d, f c)))"
  by (simp add: authThenChat_def sendChatRequest_withGatewayStatus split: prod.splits sum.splits)

lemma scenario_withGatewayStatus:
  "scenario (withGatewayStatus f env) config c a =
     (case scenario env config c a of
        (es, Inl e) \<Rightarrow> (es, Inl e)
      | (es, Inr r) \<Rightarrow> (es, Inr (r\<lparr>statusCode := f (statusCode r)\<rparr>)))"
  by (cases c)
     (simp_all add: scenario_def authThenChat_withGatewayStatus sendChatRequest_withGatewayStatus
        split: prod.splits sum.splits)

lemma errorResult_withGatewayStatus [simp]:
  "errorResult (withGatewayStatus f env) c a e = errorResult env c a e"
  by (simp add: errorResult_def)

lemma runSimulation_withGatewayStatus:
  "eraseStatus (runSimulation (withGatewayStatus f env) config st) =
   eraseStatus (runSimulation env config st)"
proof (cases "isConfigValid config")
  case False
  then show ?thesis by (simp add: runSimulation_invalid)
next
  case True
  show ?thesis
    by (cases "scenario env config (selectedCase st) (selectedAgent st)")
       (auto simp: runSimulation_valid [OF True] scenario_withGatewayStatus eraseStatus_def
          split: sum.splits)
qed

lemma runSimulation_withGatewayStatus_result:
  assumes "isConfigValid config"
      and "snd (scenario env config (selectedCase st) (selectedAgent st)) = Inr r"
  shows "results (runSimulation (withGatewayStatus f env) config st) =
     r\<lparr>statusCode := f (statusCode r)\<rparr> # results st"
  using assms
  by (cases "scenario env config (selectedCase st) (selectedAgent st)")
     (auto simp: runSimulation_valid scenario_withGatewayStatus split: sum.splits)

lemma tokenEnv_noAuth_scenario:
  "snd (scenario tokenEnv exampleConfig NoAuth ''Support-Coordinator'') =
     Inr \<lparr>caseType = NoAuth, agentType = ''Support-Coordinator'',
          authUsed = ''No authentication'', tokenReceived = Some JNull,
          response = JObj [(''message'', JStr ''Forbidden'')],
          statusCode = 403, timestamp = 7\<rparr>"
  by (simp add: scenario_def sendChatRequest_def tokenEnv_def chatRequest_url json_of_def)

section \<open>Properties of the simulator\<close>

subsection \<open>Result totality\<close>



subsection \<open>Precondition gate\<close>

text \<open>
  C2: when any of the configuration fields that the validity check reads is empty, the
  invocation records no result and sends no request: it raises the alert, opens the
  configuration dialog and changes nothing else.
\<close>

theorem incomplete_configuration_aborts:
  assumes "orgName config = [] \<or> clientId config = [] \<or> targetUrl config = [] \<or>
           agentId (coordinatorAgent config) = [] \<or> agentSecret (coordinatorAgent config) = [] \<or>
           agentId (expertAgent config) = [] \<or> agentSecret (expertAgent config) = []"
  shows "results (runSimulation env config st) = results st \<and>
         requests (trace (runSimulation env config st)) = requests (trace st) \<and>
         runSimulation env config st =
           st\<lparr>trace := trace st @ [Alert ''Please configure all settings first'', OpenConfig]\<rparr>"
proof -
  from assms have "\<not> isConfigValid config"
    by (auto simp: isConfigValid_def)
  then show ?thesis
    by (simp add: runSimulation_invalid)
qed

theorem incomplete_configuration_aborts_witness:
  "targetUrl incompleteConfig = [] \<and>
   results (runSimulation tokenEnv incompleteConfig initialState) = [] \<and>
   requests (trace (runSimulation tokenEnv incompleteConfig initialState)) = []"
proof -
  have missing: "targetUrl incompleteConfig = []"
    by (simp add: incompleteConfig_def)
  then show ?thesis
    using incomplete_configuration_aborts [of incompleteConfig tokenEnv initialState]
    by (simp add: initialState_def)
qed

subsection \<open>Impersonation uses a fixed pairing\<close>

text \<open>
  C3: in the impersonation scenario the pairing is the constant (coordinator credentials,
  \<^verbatim>\<open>Technical-Specialist\<close>). The first request is the token request with the
  coordinator's identifier and secret, every request that follows goes to the gateway
  claiming \<^verbatim>\<open>Technical-Specialist\<close>, such a request is sent whenever authentication
  returns a token, and the effects are the same for every selected agent.
\<close>

theorem impersonation_fixed_pairing:
  assumes "isConfigValid config" and "selectedCase st = WrongAgent"
  shows "getWrongAgentCredentials config = (coordinatorAgent config, ''Technical-Specialist'') \<and>
    (\<exists>rest. requests (trace (runSimulation env config st)) =
        requests (trace st) @
          tokenRequest config (agentId (coordinatorAgent config))
            (agentSecret (coordinatorAgent config)) # rest \<and>
        (\<forall>r \<in> set rest. url r = ''/api/chat'' \<and>
           headers r ''x-agent-type'' = Some ''Technical-Specialist'')) \<and>
    (\<forall>token. snd (authenticateAgent env config (agentId (coordinatorAgent config))
                     (agentSecret (coordinatorAgent config))) = Inr token \<longrightarrow>
        requests (trace (runSimulation env config st)) =
          requests (trace st) @
            [tokenRequest config (agentId (coordinatorAgent config))
               (agentSecret (coordinatorAgent config)),
             chatRequest env config token ''Technical-Specialist'']) \<and>
    trace (runSimulation env config (st\<lparr>selectedAgent := a\<rparr>)) =
      trace (runSimulation env config st)"
proof -
  let ?tok = "tokenRequest config (agentId (coordinatorAgent config))
                (agentSecret (coordinatorAgent config))"
  let ?auth = "snd (authenticateAgent env config (agentId (coordinatorAgent config))
                     (agentSecret (coordinatorAgent config)))"
  let ?rest = "case ?auth of Inl e \<Rightarrow> []
               | Inr token \<Rightarrow> [chatRequest env config token ''Technical-Specialist'']"
  have pair: "getWrongAgentCredentials config = (coordinatorAgent config, ''Technical-Specialist'')"
    by (simp add: getWrongAgentCredentials_def)
  have reqs: "requests (trace (runSimulation env config st)) = requests (trace st) @ ?tok # ?rest"
    using assms
    by (simp add: runSimulation_valid scenario_WrongAgent_requests authThenChat_requests)
  have claimed: "\<forall>r \<in> set ?rest. url r = ''/api/chat'' \<and>
      headers r ''x-agent-type'' = Some ''Technical-Specialist''"
    by (cases ?auth) (simp_all add: chatRequest_agent_header chatRequest_url)
  have succ: "\<forall>token. ?auth = Inr token \<longrightarrow>
      requests (trace (runSimulation env config st)) =
        requests (trace st) @ [?tok, chatRequest env config token ''Technical-Specialist'']"
    using reqs by auto
  have indep: "trace (runSimulation env config (st\<lparr>selectedAgent := a\<rparr>)) =
      trace (runSimulation env config st)"
    using assms by (simp add: runSimulation_valid scenario_WrongAgent)
  from pair reqs claimed succ indep show ?thesis by blast
qed

theorem impersonation_fixed_pairing_witness:
  "isConfigValid exampleConfig \<and> selectedCase impersonationState = WrongAgent \<and>
   requests (trace (runSimulation tokenEnv exampleConfig impersonationState)) =
     [tokenRequest exampleConfig ''coord-1'' ''s1'',
      chatRequest tokenEnv exampleConfig (Some (JStr ''T'')) ''Technical-Specialist''] \<and>
   trace (runSimulation tokenEnv exampleConfig
            (impersonationState\<lparr>selectedAgent := ''Technical-Specialist''\<rparr>)) =
     trace (runSimulation tokenEnv exampleConfig impersonationState)"
proof -
  have c: "selectedCase impersonationState = WrongAgent"
    by (simp add: impersonationState_def)
  have ids: "agentId (coordinatorAgent exampleConfig) = ''coord-1''"
    "agentSecret (coordinatorAgent exampleConfig) = ''s1''"
    by (simp_all add: exampleConfig_def)
  have st: "trace impersonationState = []"
    by (simp add: impersonationState_def initialState_def)
  from impersonation_fixed_pairing
         [OF exampleConfig_valid c, of tokenEnv "''Technical-Specialist''"]
       tokenEnv_authenticates ids st exampleConfig_valid c
  show ?thesis by simp
qed

subsection \<open>The unauthenticated request\<close>

text \<open>
  C4: the unauthenticated scenario sends exactly one request, to the gateway; its header
  map has no \<^verbatim>\<open>Authorization\<close> key and has the content type, the selected agent as
  \<^verbatim>\<open>x-agent-type\<close> and the configured target as \<^verbatim>\<open>x-target-url\<close>.
\<close>

theorem unauthenticated_request_omits_authorization:
  assumes "isConfigValid config" and "selectedCase st = NoAuth"
  shows "\<exists>r. requests (trace (runSimulation env config st)) = requests (trace st) @ [r] \<and>
           url r = ''/api/chat'' \<and>
           headers r ''Authorization'' = None \<and>
           ''Authorization'' \<notin> dom (headers r) \<and>
           headers r ''Content-Type'' = Some ''application/json'' \<and>
           headers r ''x-agent-type'' = Some (selectedAgent st) \<and>
           headers r ''x-target-url'' = Some (targetUrl config)"
proof -
  let ?r = "chatRequest env config (Some JNull) (selectedAgent st)"
  have "requests (trace (runSimulation env config st)) = requests (trace st) @ [?r]"
    using assms by (simp add: runSimulation_valid scenario_NoAuth_effects)
  moreover have "headers ?r = baseHeaders config (selectedAgent st)"
    by (simp add: chatRequest_def chatHeaders_no_token)
  moreover have "url ?r = ''/api/chat''"
    by (simp add: chatRequest_def)
  ultimately show ?thesis
    by (simp add: baseHeaders_def domIff)
qed

theorem unauthenticated_request_omits_authorization_witness:
  "isConfigValid exampleConfig \<and> selectedCase noAuthState = NoAuth \<and>
   (\<exists>r. requests (trace (runSimulation tokenEnv exampleConfig noAuthState)) = [r] \<and>
        headers r ''Authorization'' = None \<and>
        headers r ''x-agent-type'' = Some ''Support-Coordinator'' \<and>
        headers r ''x-target-url'' = Some ''https://gw.example/chat'')"
proof -
  have c: "selectedCase noAuthState = NoAuth"
    by (simp add: noAuthState_def)
  have "trace noAuthState = []" "selectedAgent noAuthState = ''Support-Coordinator''"
       "targetUrl exampleConfig = ''https://gw.example/chat''"
    by (simp_all add: noAuthState_def initialState_def exampleConfig_def)
  with unauthenticated_request_omits_authorization
         [OF exampleConfig_valid c, of tokenEnv] exampleConfig_valid c
  show ?thesis by auto
qed

subsection \<open>Reason of an authentication failure\<close>

text \<open>
  C5, as stated, fails: on a non-success response with an empty body,
  \<^verbatim>\<open>response.json()\<close> rejects, and the authenticator fails with the parser's message,
  not with the generic reason.
\<close>

theorem malformed_body_counterexample:
  "fetch malformedEnv (tokenRequest exampleConfig ''coord-1'' ''s1'') =
     Responded \<lparr>ok = False, status = 502,
       jsonBody = Malformed ''Unexpected end of JSON input''\<rparr> \<and>
   snd (authenticateAgent malformedEnv exampleConfig ''coord-1'' ''s1'') =
     Inl (ErrorObj ''Unexpected end of JSON input'') \<and>
   snd (authenticateAgent malformedEnv exampleConfig ''coord-1'' ''s1'') \<noteq>
     Inl (ErrorObj ''Failed to authenticate'')"
  by (simp add: authenticateAgent_def authenticateAgentTry_def malformedEnv_def json_of_def)

text \<open>
  C5, amended: on a non-success response whose body parses to a JSON value other than
  \<^verbatim>\<open>null\<close>, the authenticator fails with the generic reason when the value has no
  truthy \<^verbatim>\<open>error\<close> field, and with that field as the reason when it is a non-empty
  string; when the body does not parse, it fails with the parser's message.
\<close>

theorem authentication_failure_reason:
  assumes "fetch env (tokenRequest config a s) = Responded resp" and "\<not> ok resp"
  shows "(jsonBody resp = Parsed d \<and> getProperty env d ''error'' = Inr v \<and> \<not> truthy v \<longrightarrow>
            snd (authenticateAgent env config a s) =
              Inl (ErrorObj ''Failed to authenticate'')) \<and>
         (jsonBody resp = Parsed d \<and> getProperty env d ''error'' = Inr (Some (JStr reason)) \<and>
          reason \<noteq> [] \<longrightarrow>
            snd (authenticateAgent env config a s) = Inl (ErrorObj reason)) \<and>
         (jsonBody resp = Malformed m \<longrightarrow>
            snd (authenticateAgent env config a s) = Inl (ErrorObj m))"
  by (simp add: authenticateAgent_failure [OF assms] failureReason_falsy failureReason_string)

theorem authentication_failure_reason_witness:
  "fetch rejectingEnv (tokenRequest exampleConfig ''coord-1'' ''s1'') =
     Responded \<lparr>ok = False, status = 401,
       jsonBody = Parsed (JObj [(''error'', JStr ''invalid_client'')])\<rparr> \<and>
   snd (authenticateAgent rejectingEnv exampleConfig ''coord-1'' ''s1'') =
     Inl (ErrorObj ''invalid_client'')"
proof -
  let ?resp = "\<lparr>ok = False, status = 401,
       jsonBody = Parsed (JObj [(''error'', JStr ''invalid_client'')])\<rparr>"
  have f: "fetch rejectingEnv (tokenRequest exampleConfig ''coord-1'' ''s1'') = Responded ?resp"
    by (simp add: rejectingEnv_def)
  have n: "\<not> ok ?resp" by simp
  have p: "getProperty rejectingEnv (JObj [(''error'', JStr ''invalid_client'')]) ''error'' =
      Inr (Some (JStr ''invalid_client''))"
    by (simp add: getProperty_def)
  from authentication_failure_reason
         [OF f n, of "JObj [(''error'', JStr ''invalid_client'')]" None "''invalid_client''"] p f
  show ?thesis by simp
qed

subsection \<open>Status classification\<close>

text \<open>
  C6: the badge depends on the status code alone: codes from 200 to 299 are labelled
  \<^verbatim>\<open>Success\<close>, codes from 400 to 499 \<^verbatim>\<open>Client Error\<close>, every other code
  (503 and the codes below 200 among them) \<^verbatim>\<open>Error\<close>. The runner does not branch on
  the gateway's status: replacing the status of every gateway response, \<^verbatim>\<open>ok\<close>
  following it, changes nothing in the resulting state but the recorded status codes, and a
  scenario that returned a result records the same result with the replaced code.
\<close>

theorem status_classification:
  "(200 \<le> code \<and> code < 300 \<longrightarrow> label (getStatusBadge code) = ''Success'') \<and>
   (400 \<le> code \<and> code < 500 \<longrightarrow> label (getStatusBadge code) = ''Client Error'') \<and>
   (\<not> (200 \<le> code \<and> code < 300) \<and> \<not> (400 \<le> code \<and> code < 500) \<longrightarrow>
      label (getStatusBadge code) = ''Error'') \<and>
   (code < 200 \<longrightarrow> label (getStatusBadge code) = ''Error'') \<and>
   label (getStatusBadge 503) = ''Error'' \<and>
   shownCode (getStatusBadge code) = code \<and>
   eraseStatus (runSimulation (withGatewayStatus f env) config st) =
     eraseStatus (runSimulation env config st) \<and>
   (isConfigValid config \<and>
    snd (scenario env config (selectedCase st) (selectedAgent st)) = Inr r \<longrightarrow>
      results (runSimulation (withGatewayStatus f env) config st) =
        r\<lparr>statusCode := f (statusCode r)\<rparr> # results st)"
proof -
  have badge:
    "(200 \<le> code \<and> code < 300 \<longrightarrow> label (getStatusBadge code) = ''Success'') \<and>
     (400 \<le> code \<and> code < 500 \<longrightarrow> label (getStatusBadge code) = ''Client Error'') \<and>
     (\<not> (200 \<le> code \<and> code < 300) \<and> \<not> (400 \<le> code \<and> code < 500) \<longrightarrow>
        label (getStatusBadge code) = ''Error'') \<and>
     (code < 200 \<longrightarrow> label (getStatusBadge code) = ''Error'') \<and>
     label (getStatusBadge 503) = ''Error'' \<and>
     shownCode (getStatusBadge code) = code"
    by (simp add: getStatusBadge_def)
  have same: "eraseStatus (runSimulation (withGatewayStatus f env) config st) =
     eraseStatus (runSimulation env config st)"
    by (rule runSimulation_withGatewayStatus)
  have verbatim: "isConfigValid config \<and>
    snd (scenario env config (selectedCase st) (selectedAgent st)) = Inr r \<longrightarrow>
      results (runSimulation (withGatewayStatus f env) config st) =
        r\<lparr>statusCode := f (statusCode r)\<rparr> # results st"
    using runSimulation_withGatewayStatus_result by blast
  from badge same verbatim show ?thesis by blast
qed

theorem status_classification_witness:
  "label (getStatusBadge 200) = ''Success'' \<and>
   label (getStatusBadge 404) = ''Client Error'' \<and>
   label (getStatusBadge 503) = ''Error'' \<and>
   label (getStatusBadge 199) = ''Error'' \<and>
   label (getStatusBadge 302) = ''Error'' \<and>
   isConfigValid exampleConfig \<and>
   map statusCode (results (runSimulation tokenEnv exampleConfig noAuthState)) = [403] \<and>
   map statusCode
     (results (runSimulation (withGatewayStatus toOk tokenEnv) exampleConfig noAuthState)) =
     [200] \<and>
   eraseStatus (runSimulation (withGatewayStatus toOk tokenEnv) exampleConfig noAuthState) =
     eraseStatus (runSimulation tokenEnv exampleConfig noAuthState)"
proof -
  have st: "selectedCase noAuthState = NoAuth" "selectedAgent noAuthState = ''Support-Coordinator''"
    "results noAuthState = []"
    by (simp_all add: noAuthState_def initialState_def)
  have plain: "map statusCode (results (runSimulation tokenEnv exampleConfig noAuthState)) = [403]"
    using tokenEnv_noAuth_scenario st
    by (simp add: runSimulation_valid [OF exampleConfig_valid])
  have moved: "map statusCode
     (results (runSimulation (withGatewayStatus toOk tokenEnv) exampleConfig noAuthState)) = [200]"
    using status_classification [of 200 toOk tokenEnv exampleConfig noAuthState]
          tokenEnv_noAuth_scenario st exampleConfig_valid
    by (simp add: toOk_def)
  have same: "eraseStatus (runSimulation (withGatewayStatus toOk tokenEnv) exampleConfig noAuthState) =
     eraseStatus (runSimulation tokenEnv exampleConfig noAuthState)"
    using status_classification [of 200 toOk tokenEnv exampleConfig noAuthState] by blast
  have badges: "label (getStatusBadge 200) = ''Success'' \<and>
     label (getStatusBadge 404) = ''Client Error'' \<and>
     label (getStatusBadge 503) = ''Error'' \<and>
     label (getStatusBadge 199) = ''Error'' \<and>
     label (getStatusBadge 302) = ''Error''"
    using status_classification [of 200] status_classification [of 404]
          status_classification [of 503] status_classification [of 199]
          status_classification [of 302]
    by simp
  from badges exampleConfig_valid plain moved same show ?thesis by (simp only: conj_assoc simp_thms)
qed

subsection \<open>Role isolation and the matched-identity example\<close>

text \<open>
  C7: credential resolution returns the coordinator's pair for
  \<^verbatim>\<open>Support-Coordinator\<close> and the specialist's pair for \<^verbatim>\<open>Technical-Specialist\<close>,
  hence not the other role's pair when the two differ. Under the example configuration, the
  matched-identity scenario with the coordinator selected sends the token request for
  (acme, c1, coord-1, s1); when authentication returns the token \<^verbatim>\<open>T\<close>, it dispatches
  with \<^verbatim>\<open>x-agent-type: Support-Coordinator\<close> and \<^verbatim>\<open>Authorization: Bearer T\<close>, and
  the recorded result has \<^verbatim>\<open>authUsed\<close> equal to \<^verbatim>\<open>Support-Coordinator credentials\<close>.
\<close>

theorem matched_identity_coordinator:
  "getAgentCredentials config ''Support-Coordinator'' = coordinatorAgent config \<and>
   getAgentCredentials config ''Technical-Specialist'' = expertAgent config \<and>
   (coordinatorAgent config \<noteq> expertAgent config \<longrightarrow>
      getAgentCredentials config ''Support-Coordinator'' \<noteq> expertAgent config \<and>
      getAgentCredentials config ''Technical-Specialist'' \<noteq> coordinatorAgent config) \<and>
   body (tokenRequest exampleConfig ''coord-1'' ''s1'') =
     JObj [(''orgName'', JStr ''acme''), (''clientId'', JStr ''c1''),
           (''agentId'', JStr ''coord-1''), (''agentSecret'', JStr ''s1'')] \<and>
   (selectedCase st = CorrectAgent \<and> selectedAgent st = ''Support-Coordinator'' \<and>
    snd (authenticateAgent env exampleConfig ''coord-1'' ''s1'') = Inr (Some (JStr ''T'')) \<longrightarrow>
      (\<exists>r2 res.
         requests (trace (runSimulation env exampleConfig st)) =
           requests (trace st) @ [tokenRequest exampleConfig ''coord-1'' ''s1'', r2] \<and>
         url r2 = ''/api/chat'' \<and>
         headers r2 ''x-agent-type'' = Some ''Support-Coordinator'' \<and>
         headers r2 ''Authorization'' = Some ''Bearer T'' \<and>
         results (runSimulation env exampleConfig st) = res # results st \<and>
         authUsed res = ''Support-Coordinator credentials''))"
proof -
  have roles: "getAgentCredentials config ''Support-Coordinator'' = coordinatorAgent config"
    "getAgentCredentials config ''Technical-Specialist'' = expertAgent config"
    by (simp_all add: getAgentCredentials_def)
  have tok: "body (tokenRequest exampleConfig ''coord-1'' ''s1'') =
     JObj [(''orgName'', JStr ''acme''), (''clientId'', JStr ''c1''),
           (''agentId'', JStr ''coord-1''), (''agentSecret'', JStr ''s1'')]"
    by (simp add: tokenRequest_def exampleConfig_def)
  have run: "\<exists>r2 res.
         requests (trace (runSimulation env exampleConfig st)) =
           requests (trace st) @ [tokenRequest exampleConfig ''coord-1'' ''s1'', r2] \<and>
         url r2 = ''/api/chat'' \<and>
         headers r2 ''x-agent-type'' = Some ''Support-Coordinator'' \<and>
         headers r2 ''Authorization'' = Some ''Bearer T'' \<and>
         results (runSimulation env exampleConfig st) = res # results st \<and>
         authUsed res = ''Support-Coordinator credentials''"
    if c: "selectedCase st = CorrectAgent" and a: "selectedAgent st = ''Support-Coordinator''"
      and t: "snd (authenticateAgent env exampleConfig ''coord-1'' ''s1'') = Inr (Some (JStr ''T''))"
  proof -
    let ?r2 = "chatRequest env exampleConfig (Some (JStr ''T'')) ''Support-Coordinator''"
    let ?res = "case snd (scenario env exampleConfig CorrectAgent ''Support-Coordinator'') of
                  Inr r \<Rightarrow> r
                | Inl e \<Rightarrow> errorResult env CorrectAgent ''Support-Coordinator'' e"
    have ids: "agentId (coordinatorAgent exampleConfig) = ''coord-1''"
      "agentSecret (coordinatorAgent exampleConfig) = ''s1''"
      by (simp_all add: exampleConfig_def)
    have "requests (trace (runSimulation env exampleConfig st)) =
           requests (trace st) @ [tokenRequest exampleConfig ''coord-1'' ''s1'', ?r2]"
      using c a t
      by (simp add: runSimulation_valid [OF exampleConfig_valid] scenario_CorrectAgent_requests
            authThenChat_requests getAgentCredentials_coordinator ids)
    moreover have "headers ?r2 ''Authorization'' = Some ''Bearer T''"
      by (simp add: chatRequest_authorization ToString_def)
    moreover have "results (runSimulation env exampleConfig st) = ?res # results st"
      using c a by (simp add: runSimulation_valid [OF exampleConfig_valid] split: sum.splits)
    moreover have "authUsed ?res = ''Support-Coordinator credentials''"
      using scenario_authUsed [of CorrectAgent "''Support-Coordinator''" env exampleConfig]
      by simp
    ultimately show ?thesis
      using chatRequest_agent_header [of env exampleConfig "Some (JStr ''T'')" "''Support-Coordinator''"]
        chatRequest_url [of env exampleConfig "Some (JStr ''T'')" "''Support-Coordinator''"]
      by blast
  qed
  have iso: "coordinatorAgent config \<noteq> expertAgent config \<longrightarrow>
      getAgentCredentials config ''Support-Coordinator'' \<noteq> expertAgent config \<and>
      getAgentCredentials config ''Technical-Specialist'' \<noteq> coordinatorAgent config"
    unfolding roles by auto
  have run': "selectedCase st = CorrectAgent \<and> selectedAgent st = ''Support-Coordinator'' \<and>
    snd (authenticateAgent env exampleConfig ''coord-1'' ''s1'') = Inr (Some (JStr ''T'')) \<longrightarrow>
      (\<exists>r2 res.
         requests (trace (runSimulation env exampleConfig st)) =
           requests (trace st) @ [tokenRequest exampleConfig ''coord-1'' ''s1'', r2] \<and>
         url r2 = ''/api/chat'' \<and>
         headers r2 ''x-agent-type'' = Some ''Support-Coordinator'' \<and>
         headers r2 ''Authorization'' = Some ''Bearer T'' \<and>
         results (runSimulation env exampleConfig st) = res # results st \<and>
         authUsed res = ''Support-Coordinator credentials'')"
    using run by (intro impI) (elim conjE)
  show ?thesis
    by (intro conjI) (fact roles(1), fact roles(2), fact iso, fact tok, fact run')
qed

theorem matched_identity_coordinator_witness:
  "coordinatorAgent exampleConfig \<noteq> expertAgent exampleConfig \<and>
   getAgentCredentials exampleConfig ''Support-Coordinator'' =
     \<lparr>agentId = ''coord-1'', agentSecret = ''s1''\<rparr> \<and>
   getAgentCredentials exampleConfig ''Support-Coordinator'' \<noteq> expertAgent exampleConfig \<and>
   selectedCase initialState = CorrectAgent \<and>
   selectedAgent initialState = ''Support-Coordinator'' \<and>
   snd (authenticateAgent tokenEnv exampleConfig ''coord-1'' ''s1'') = Inr (Some (JStr ''T'')) \<and>
   (\<exists>r2 res.
      requests (trace (runSimulation tokenEnv exampleConfig initialState)) =
        [tokenRequest exampleConfig ''coord-1'' ''s1'', r2] \<and>
      headers r2 ''x-agent-type'' = Some ''Support-Coordinator'' \<and>
      headers r2 ''Authorization'' = Some ''Bearer T'' \<and>
      results (runSimulation tokenEnv exampleConfig initialState) = [res] \<and>
      authUsed res = ''Support-Coordinator credentials'')"
proof -
  have differ: "coordinatorAgent exampleConfig \<noteq> expertAgent exampleConfig"
    by (simp add: exampleConfig_def)
  have coord: "coordinatorAgent exampleConfig = \<lparr>agentId = ''coord-1'', agentSecret = ''s1''\<rparr>"
    by (simp add: exampleConfig_def)
  have st: "selectedCase initialState = CorrectAgent"
    "selectedAgent initialState = ''Support-Coordinator''"
    "trace initialState = []" "results initialState = []"
    by (simp_all add: initialState_def)
  from matched_identity_coordinator [of exampleConfig initialState tokenEnv]
       differ coord st tokenEnv_authenticates
  show ?thesis by auto
qed

subsection \<open>Result history\<close>



subsection \<open>Failure record of the impersonation scenario\<close>

text \<open>
  C9: when authentication or dispatch fails in the impersonation scenario, the recorded
  result names the selected agent as \<^verbatim>\<open>agentType\<close> and the selected agent's
  credentials as \<^verbatim>\<open>authUsed\<close>, which is never the pair
  (\<^verbatim>\<open>Technical-Specialist\<close>, \<^verbatim>\<open>Support-Coordinator credentials\<close>) that the scenario
  records when both calls succeed.
\<close>

theorem impersonation_failure_records_selection:
  assumes "isConfigValid config" and "selectedCase st = WrongAgent"
  shows "(snd (authenticateAgent env config (agentId (coordinatorAgent config))
                  (agentSecret (coordinatorAgent config))) = Inl e \<or>
          (\<exists>token. snd (authenticateAgent env config (agentId (coordinatorAgent config))
                            (agentSecret (coordinatorAgent config))) = Inr token \<and>
                    snd (sendChatRequest env config token ''Technical-Specialist'') = Inl e) \<longrightarrow>
            (\<exists>r. results (runSimulation env config st) = r # results st \<and>
               caseType r = WrongAgent \<and>
               agentType r = selectedAgent st \<and>
               authUsed r = selectedAgent st @ '' credentials'' \<and>
               (agentType r, authUsed r) \<noteq>
                 (''Technical-Specialist'', ''Support-Coordinator credentials''))) \<and>
         (snd (authenticateAgent env config (agentId (coordinatorAgent config))
                  (agentSecret (coordinatorAgent config))) = Inr tok \<and>
          snd (sendChatRequest env config tok ''Technical-Specialist'') = Inr (data, code) \<longrightarrow>
            (\<exists>r. results (runSimulation env config st) = r # results st \<and>
               caseType r = WrongAgent \<and>
               agentType r = ''Technical-Specialist'' \<and>
               authUsed r = ''Support-Coordinator credentials''))"
proof (intro conjI impI)
  assume fails:
    "snd (authenticateAgent env config (agentId (coordinatorAgent config))
            (agentSecret (coordinatorAgent config))) = Inl e \<or>
     (\<exists>token. snd (authenticateAgent env config (agentId (coordinatorAgent config))
                      (agentSecret (coordinatorAgent config))) = Inr token \<and>
              snd (sendChatRequest env config token ''Technical-Specialist'') = Inl e)"
  have "snd (authThenChat env config (coordinatorAgent config) ''Technical-Specialist'') = Inl e"
    using fails by (rule authThenChat_fails)
  then have "snd (scenario env config WrongAgent (selectedAgent st)) = Inl e"
    by (auto simp: scenario_WrongAgent split: prod.splits sum.splits)
  then have res: "results (runSimulation env config st) =
      errorResult env WrongAgent (selectedAgent st) e # results st"
    using assms by (simp add: runSimulation_valid)
  let ?r = "errorResult env WrongAgent (selectedAgent st) e"
  have r: "agentType ?r = selectedAgent st"
    "authUsed ?r = selectedAgent st @ '' credentials''"
    "caseType ?r = WrongAgent"
    by (simp_all add: errorResult_def)
  have ne: "(agentType ?r, authUsed ?r) \<noteq>
      (''Technical-Specialist'', ''Support-Coordinator credentials'')"
    unfolding r by auto
  from res r ne
  show "\<exists>r. results (runSimulation env config st) = r # results st \<and>
          caseType r = WrongAgent \<and>
          agentType r = selectedAgent st \<and>
          authUsed r = selectedAgent st @ '' credentials'' \<and>
          (agentType r, authUsed r) \<noteq>
            (''Technical-Specialist'', ''Support-Coordinator credentials'')"
    by blast
next
  assume succeeds:
    "snd (authenticateAgent env config (agentId (coordinatorAgent config))
            (agentSecret (coordinatorAgent config))) = Inr tok \<and>
     snd (sendChatRequest env config tok ''Technical-Specialist'') = Inr (data, code)"
  then have "snd (authThenChat env config (coordinatorAgent config) ''Technical-Specialist'') =
      Inr (tok, data, code)"
    by (intro authThenChat_succeeds) simp_all
  then have "snd (scenario env config WrongAgent (selectedAgent st)) =
      Inr \<lparr>caseType = WrongAgent,
           agentType = ''Technical-Specialist'',
           authUsed = ''Support-Coordinator credentials'',
           tokenReceived = tok,
           response = data,
           statusCode = code,
           timestamp = now env\<rparr>"
    by (auto simp: scenario_WrongAgent split: prod.splits sum.splits)
  then show "\<exists>r. results (runSimulation env config st) = r # results st \<and>
          caseType r = WrongAgent \<and>
          agentType r = ''Technical-Specialist'' \<and>
          authUsed r = ''Support-Coordinator credentials''"
    using assms by (simp add: runSimulation_valid)
qed

theorem impersonation_failure_records_selection_witness:
  "isConfigValid exampleConfig \<and> selectedCase impersonationState = WrongAgent \<and>
   snd (authenticateAgent rejectingEnv exampleConfig ''coord-1'' ''s1'') =
     Inl (ErrorObj ''invalid_client'') \<and>
   (\<exists>r. results (runSimulation rejectingEnv exampleConfig impersonationState) = [r] \<and>
        agentType r = ''Support-Coordinator'' \<and>
        authUsed r = ''Support-Coordinator credentials'')"
proof -
  have c: "selectedCase impersonationState = WrongAgent"
    by (simp add: impersonationState_def)
  have ids: "agentId (coordinatorAgent exampleConfig) = ''coord-1''"
    "agentSecret (coordinatorAgent exampleConfig) = ''s1''"
    by (simp_all add: exampleConfig_def)
  have fails: "snd (authenticateAgent rejectingEnv exampleConfig ''coord-1'' ''s1'') =
     Inl (ErrorObj ''invalid_client'')"
    by (simp add: authenticateAgent_def authenticateAgentTry_def rejectingEnv_def json_of_def
          getProperty_def failureReason_def ToString_def)
  have st: "results impersonationState = []"
    "selectedAgent impersonationState = ''Support-Coordinator''"
    by (simp_all add: impersonationState_def initialState_def)
  from impersonation_failure_records_selection
         [OF exampleConfig_valid c, of rejectingEnv "ErrorObj ''invalid_client''"]
       fails ids st exampleConfig_valid c
  show ?thesis by auto
qed

subsection \<open>Authorization header and falsy tokens\<close>



end
